theory Spec2Isabelle
  imports Complex_Main "HOL-Library.Stream"
begin

section \<open>The Pong engine of src/src/pong-game.js\<close>

text \<open>
  JavaScript numbers are modelled as real numbers: every arithmetic operation of the
  source is the exact operation on \<^typ>\<open>real\<close>, so rounding, infinities and NaN are
  outside the model. Objects are records, \<^verbatim>\<open>null\<close> is \<open>None\<close>, and the process-wide
  generator behind \<^verbatim>\<open>Math.random\<close> is an explicit stream of draws that is passed in
  and handed back.
\<close>

subsection \<open>Configuration and data\<close>

record pong_config =
  width :: real
  height :: real
  paddleWidth :: real
  paddleHeight :: real
  paddleSpeed :: real
  paddleMargin :: real
  ballSize :: real
  ballSpeedInitial :: real
  ballSpeedIncrement :: real
  ballSpeedMax :: real
  pointsToWin :: nat
  countdownSeconds :: real

definition PONG_CONFIG :: pong_config where
  "PONG_CONFIG = \<lparr> width = 500, height = 300, paddleWidth = 12, paddleHeight = 70,
     paddleSpeed = 6, paddleMargin = 15, ballSize = 10, ballSpeedInitial = 4,
     ballSpeedIncrement = 15 / 100, ballSpeedMax = 8, pointsToWin = 5,
     countdownSeconds = 3 \<rparr>"

text \<open>The ball object \<^verbatim>\<open>{x, y, vx, vy, speed}\<close>; the fields carry the prefix \<open>ball_\<close>.\<close>

record ball =
  ball_x :: real
  ball_y :: real
  ball_vx :: real
  ball_vy :: real
  ball_speed :: real

text \<open>The input object \<^verbatim>\<open>{up, down}\<close>.\<close>

record input =
  up :: bool
  down :: bool

text \<open>The score object \<^verbatim>\<open>{player, ai}\<close>.\<close>

record score =
  player :: nat
  ai :: nat

datatype phase = Countdown | Playing | Finished

datatype side = Player | AI

text \<open>The state object built by \<^verbatim>\<open>createInitialState\<close>.\<close>

record match_state =
  st_phase :: phase
  st_countdown :: real
  st_player_y :: real
  st_ai_y :: real
  st_ai_targetY :: real
  st_ball :: ball
  st_score :: score
  st_input :: input

definition createInitialState :: match_state where
  "createInitialState =
     \<lparr> st_phase = Countdown,
       st_countdown = countdownSeconds PONG_CONFIG,
       st_player_y = height PONG_CONFIG / 2 - paddleHeight PONG_CONFIG / 2,
       st_ai_y = height PONG_CONFIG / 2 - paddleHeight PONG_CONFIG / 2,
       st_ai_targetY = height PONG_CONFIG / 2,
       st_ball = \<lparr> ball_x = width PONG_CONFIG / 2 - ballSize PONG_CONFIG / 2,
                    ball_y = height PONG_CONFIG / 2 - ballSize PONG_CONFIG / 2,
                    ball_vx = 0, ball_vy = 0,
                    ball_speed = ballSpeedInitial PONG_CONFIG \<rparr>,
       st_score = \<lparr> player = 0, ai = 0 \<rparr>,
       st_input = \<lparr> up = False, down = False \<rparr> \<rparr>"

subsection \<open>The global generator\<close>

text \<open>
  \<^verbatim>\<open>Math.random()\<close> takes the next draw of the process-wide generator, which is the
  stream of the draws still to come.
\<close>

type_synonym generator = "real stream"

definition Math_random :: "generator \<Rightarrow> real \<times> generator" where
  "Math_random g = (shd g, stl g)"

subsection \<open>Paddles\<close>

definition clampPaddleY :: "real \<Rightarrow> real" where
  "clampPaddleY y = max 0 (min (height PONG_CONFIG - paddleHeight PONG_CONFIG) y)"

text \<open>
  \<^verbatim>\<open>movePlayerPaddle\<close> applies its two updates one after the other, as the source does.
  Here each update is exact; the source rounds each to a double, so with both keys
  pressed its result can differ from the clamped position in the last digits. Nothing
  below relies on the two updates cancelling.
\<close>

definition movePlayerPaddle :: "real \<Rightarrow> input \<Rightarrow> real \<Rightarrow> real" where
  "movePlayerPaddle currentY inp frameSpeed =
     (let newY = currentY;
          newY = (if up inp then newY - paddleSpeed PONG_CONFIG * frameSpeed else newY);
          newY = (if down inp then newY + paddleSpeed PONG_CONFIG * frameSpeed else newY)
      in clampPaddleY newY)"

subsection \<open>Trajectory prediction\<close>

definition maxIterations :: nat where
  "maxIterations = 10"

text \<open>
  One pass of the body of the \<^verbatim>\<open>while\<close> loop of \<^verbatim>\<open>predictBallY\<close>: the two
  \<^verbatim>\<open>if\<close> statements run in sequence, the second on the result of the first.
\<close>

definition fold_once :: "real \<Rightarrow> real" where
  "fold_once predictedY =
     (let p = (if predictedY < 0 then - predictedY else predictedY)
      in if p > height PONG_CONFIG - ballSize PONG_CONFIG
         then 2 * (height PONG_CONFIG - ballSize PONG_CONFIG) - p else p)"

text \<open>
  The loop itself, on the loop variables \<^verbatim>\<open>predictedY\<close> and \<^verbatim>\<open>iterations\<close>; it
  returns both at exit, so that the number of passes can be read off.
\<close>

function predictBallY_loop :: "real \<Rightarrow> nat \<Rightarrow> real \<times> nat" where
  "predictBallY_loop predictedY iterations =
     (if (predictedY < 0 \<or> predictedY > height PONG_CONFIG - ballSize PONG_CONFIG)
         \<and> iterations < maxIterations
      then predictBallY_loop (fold_once predictedY) (iterations + 1)
      else (predictedY, iterations))"
  by pat_completeness auto
termination
  by (relation "measure (\<lambda>(predictedY, iterations). maxIterations - iterations)") auto

declare predictBallY_loop.simps [simp del]

definition predictBallY :: "ball \<Rightarrow> real \<Rightarrow> real" where
  "predictBallY b targetX =
     (if ball_vx b = 0 then ball_y b
      else let timeToReach = (targetX - ball_x b) / ball_vx b
           in if timeToReach < 0 then ball_y b
              else fst (predictBallY_loop (ball_y b + ball_vy b * timeToReach) 0))"

subsection \<open>The AI paddle\<close>

definition calculateAITarget :: "ball \<Rightarrow> real \<Rightarrow> generator \<Rightarrow> real \<times> generator" where
  "calculateAITarget b currentAiY g =
     (let aiX = width PONG_CONFIG - paddleMargin PONG_CONFIG - paddleWidth PONG_CONFIG
      in if ball_vx b > 0
         then (let predictedY = predictBallY b aiX;
                   (r, g') = Math_random g
               in (predictedY - paddleHeight PONG_CONFIG / 2 + (r - 5 / 10) * 30, g'))
         else (height PONG_CONFIG / 2 - paddleHeight PONG_CONFIG / 2, g))"

text \<open>
  \<^verbatim>\<open>moveAIPaddle\<close> adds the signed movement to the current position. Here the sum is
  exact; the source rounds the difference, the product and the sum to doubles, so its
  result can pass the target in the last digits. Nothing below relies on the sum
  stopping exactly at the target.
\<close>

definition moveAIPaddle :: "real \<Rightarrow> real \<Rightarrow> real \<Rightarrow> real" where
  "moveAIPaddle currentY targetY frameSpeed =
     (let aiSpeed = paddleSpeed PONG_CONFIG * (9 / 10);
          diff = targetY - currentY
      in if \<bar>diff\<bar> \<le> 2 then currentY
         else let movement = sgn diff * min \<bar>diff\<bar> (aiSpeed * frameSpeed)
              in clampPaddleY (currentY + movement))"

subsection \<open>Collisions and scoring\<close>

record wall_result =
  collided :: bool
  newY :: real
  newVy :: real

definition checkWallCollision :: "ball \<Rightarrow> wall_result" where
  "checkWallCollision b =
     (if ball_y b \<le> 0
      then \<lparr> collided = True, newY = 0, newVy = \<bar>ball_vy b\<bar> \<rparr>
      else if ball_y b \<ge> height PONG_CONFIG - ballSize PONG_CONFIG
      then \<lparr> collided = True, newY = height PONG_CONFIG - ballSize PONG_CONFIG,
             newVy = - \<bar>ball_vy b\<bar> \<rparr>
      else \<lparr> collided = False, newY = ball_y b, newVy = ball_vy b \<rparr>)"

text \<open>
  \<^verbatim>\<open>checkPaddleCollision\<close> returns \<^verbatim>\<open>{hit: false}\<close>, here \<open>None\<close>, or
  \<^verbatim>\<open>{hit: true, newBall}\<close>, here \<open>Some newBall\<close>.
\<close>

definition checkPaddleCollision :: "ball \<Rightarrow> real \<Rightarrow> real \<Rightarrow> bool \<Rightarrow> ball option" where
  "checkPaddleCollision b paddleX paddleY isLeftPaddle =
     (let ballCenter = ball_y b + ballSize PONG_CONFIG / 2;
          paddleCenter = paddleY + paddleHeight PONG_CONFIG / 2;
          inXRange = (if isLeftPaddle
                      then ball_x b \<le> paddleX + paddleWidth PONG_CONFIG \<and> ball_x b \<ge> paddleX
                           \<and> ball_vx b < 0
                      else ball_x b \<ge> paddleX - ballSize PONG_CONFIG \<and> ball_x b \<le> paddleX
                           \<and> ball_vx b > 0)
      in if \<not> inXRange then None
         else if ballCenter < paddleY \<or> ballCenter > paddleY + paddleHeight PONG_CONFIG
         then None
         else let hitPos = (ballCenter - paddleCenter) / (paddleHeight PONG_CONFIG / 2);
                  angle = hitPos * (8 / 10);
                  newSpeed = min (ballSpeedMax PONG_CONFIG)
                                 (ball_speed b + ballSpeedIncrement PONG_CONFIG);
                  newVx = (if isLeftPaddle then newSpeed * cos angle
                           else - newSpeed * cos angle);
                  newVy = newSpeed * sin angle;
                  newX = (if isLeftPaddle then paddleX + paddleWidth PONG_CONFIG
                          else paddleX - ballSize PONG_CONFIG)
              in Some (b\<lparr> ball_x := newX, ball_vx := newVx, ball_vy := newVy,
                          ball_speed := newSpeed \<rparr>))"

definition checkScore :: "ball \<Rightarrow> side option" where
  "checkScore b =
     (if ball_x b < 0 then Some AI
      else if ball_x b > width PONG_CONFIG then Some Player
      else None)"

definition checkWinner :: "score \<Rightarrow> side option" where
  "checkWinner sc =
     (if player sc \<ge> pointsToWin PONG_CONFIG then Some Player
      else if ai sc \<ge> pointsToWin PONG_CONFIG then Some AI
      else None)"

subsection \<open>Serving\<close>

record velocity =
  vx :: real
  vy :: real

text \<open>
  The local \<^verbatim>\<open>random\<close> of \<^verbatim>\<open>generateServeVelocity\<close>: the constant function of the
  seed when a seed is given, \<^verbatim>\<open>Math.random\<close> otherwise.
\<close>

definition random :: "real option \<Rightarrow> generator \<Rightarrow> real \<times> generator" where
  "random seed g = (case seed of Some s \<Rightarrow> (s, g) | None \<Rightarrow> Math_random g)"

definition generateServeVelocity :: "real option \<Rightarrow> generator \<Rightarrow> velocity \<times> generator" where
  "generateServeVelocity seed g =
     (let (r1, g1) = random seed g;
          angle = r1 * (8 / 10) - 4 / 10;
          (r2, g2) = random seed g1;
          direction = (if r2 > 5 / 10 then 1 else - 1)
      in (\<lparr> vx = direction * ballSpeedInitial PONG_CONFIG * cos angle,
            vy = ballSpeedInitial PONG_CONFIG * sin angle \<rparr>, g2))"

subsection \<open>The per-frame advance operation\<close>

text \<open>
  Modelled from the spec: the horizontal position of the player's paddle, which no
  function of src/ fixes; the spec puts the player on the left, and the tests place
  that paddle at the margin.
\<close>

definition playerPaddleX :: real where
  "playerPaddleX = paddleMargin PONG_CONFIG"

text \<open>
  Modelled from the spec: the horizontal position of the AI's paddle, on the right. It
  is the value that \<^verbatim>\<open>calculateAITarget\<close> computes locally as \<^verbatim>\<open>aiX\<close> and that the
  tests pass as the paddle position.
\<close>

definition aiPaddleX :: real where
  "aiPaddleX = width PONG_CONFIG - paddleMargin PONG_CONFIG - paddleWidth PONG_CONFIG"

text \<open>
  Modelled from the spec: serving, which is missing from src/. The Serve Generator is
  invoked without a seed, its output is assigned to the ball's velocity and the speed
  is reset to the initial constant (spec 4.1).
\<close>

definition serveBall :: "ball \<Rightarrow> generator \<Rightarrow> ball \<times> generator" where
  "serveBall b g =
     (let (v, g') = generateServeVelocity None g
      in (b\<lparr> ball_vx := vx v, ball_vy := vy v,
              ball_speed := ballSpeedInitial PONG_CONFIG \<rparr>, g'))"

text \<open>
  Modelled from the spec: the reset of the ball after a point, missing from src/: back
  to the centre with zero velocity (spec 4.1), the centre being that of
  \<^verbatim>\<open>createInitialState\<close>.
\<close>

definition resetBall :: "ball \<Rightarrow> ball" where
  "resetBall b = b\<lparr> ball_x := width PONG_CONFIG / 2 - ballSize PONG_CONFIG / 2,
                     ball_y := height PONG_CONFIG / 2 - ballSize PONG_CONFIG / 2,
                     ball_vx := 0, ball_vy := 0 \<rparr>"

text \<open>
  Modelled from the spec: one tick of the Countdown phase, missing from src/. The
  countdown is decremented by the elapsed time; once it is at or below zero the phase
  becomes Playing and the ball is served (spec 4.1).
\<close>

definition tickCountdown :: "match_state \<Rightarrow> generator \<Rightarrow> real \<Rightarrow> match_state \<times> generator" where
  "tickCountdown s g elapsed =
     (let remaining = st_countdown s - elapsed
      in if remaining \<le> 0
         then (let (b, g') = serveBall (st_ball s) g
               in (s\<lparr> st_phase := Playing, st_countdown := remaining, st_ball := b \<rparr>, g'))
         else (s\<lparr> st_countdown := remaining \<rparr>, g))"

text \<open>
  Modelled from the spec: the paddle collisions of one tick, missing from src/. The
  left paddle is tried first and the right one only if the left reports no hit, so
  that the ball hits at most one paddle per tick (spec 4.5).
\<close>

definition resolvePaddles :: "ball \<Rightarrow> real \<Rightarrow> real \<Rightarrow> ball" where
  "resolvePaddles b playerY aiY =
     (case checkPaddleCollision b playerPaddleX playerY True of
        Some nb \<Rightarrow> nb
      | None \<Rightarrow> (case checkPaddleCollision b aiPaddleX aiY False of
                   Some nb \<Rightarrow> nb
                 | None \<Rightarrow> b))"

text \<open>
  Modelled from the spec: one tick of the Playing phase, missing from src/ (spec 4.1,
  4.5): both paddles move, the ball is integrated over the frame time scale, wall and
  paddle collisions are resolved, and scoring is checked. On a point the counter of
  the scorer is incremented; if that wins the match the phase becomes Finished with
  ball and paddles as they are at that tick, and otherwise the ball is reset and
  served again. The elapsed time is the frame time scale.
\<close>

definition tickPlaying ::
  "match_state \<Rightarrow> generator \<Rightarrow> real \<Rightarrow> input \<Rightarrow> match_state \<times> generator" where
  "tickPlaying s g elapsed inp =
     (let playerY = movePlayerPaddle (st_player_y s) inp elapsed;
          (targetY, g1) = calculateAITarget (st_ball s) (st_ai_y s) g;
          aiY = moveAIPaddle (st_ai_y s) targetY elapsed;
          b0 = st_ball s;
          b1 = b0\<lparr> ball_x := ball_x b0 + ball_vx b0 * elapsed,
                   ball_y := ball_y b0 + ball_vy b0 * elapsed \<rparr>;
          w = checkWallCollision b1;
          b2 = b1\<lparr> ball_y := newY w, ball_vy := newVy w \<rparr>;
          b3 = resolvePaddles b2 playerY aiY;
          s1 = s\<lparr> st_player_y := playerY, st_ai_y := aiY, st_ai_targetY := targetY,
                  st_ball := b3 \<rparr>
      in case checkScore b3 of
           None \<Rightarrow> (s1, g1)
         | Some who \<Rightarrow>
             (let sc = st_score s1;
                  sc' = (case who of
                           Player \<Rightarrow> sc\<lparr> player := player sc + 1 \<rparr>
                         | AI \<Rightarrow> sc\<lparr> ai := ai sc + 1 \<rparr>);
                  s2 = s1\<lparr> st_score := sc' \<rparr>
              in case checkWinner sc' of
                   Some _ \<Rightarrow> (s2\<lparr> st_phase := Finished \<rparr>, g1)
                 | None \<Rightarrow> (let (b4, g2) = serveBall (resetBall b3) g1
                            in (s2\<lparr> st_ball := b4 \<rparr>, g2))))"

text \<open>
  Modelled from the spec: the boundary operation
  \<^verbatim>\<open>advance(state, elapsedTime, input)\<close> of spec 6, missing from src/ (the host's
  game loop is not part of the extracted module). It dispatches on the phase;
  advancing a Finished state returns the state as it is (spec 4.1, 7). The state of
  the global generator travels with the match state.
\<close>

definition advance :: "match_state \<times> generator \<Rightarrow> real \<Rightarrow> input \<Rightarrow> match_state \<times> generator" where
  "advance sg elapsed inp =
     (case sg of (s, g) \<Rightarrow>
        (case st_phase s of
           Countdown \<Rightarrow> tickCountdown s g elapsed
         | Playing \<Rightarrow> tickPlaying s g elapsed inp
         | Finished \<Rightarrow> (s, g)))"

text \<open>
  Modelled from the spec: the host calling \<^verbatim>\<open>advance\<close> once per frame (spec 5), each
  frame with its own elapsed time and input snapshot.
\<close>

fun advance_many ::
  "match_state \<times> generator \<Rightarrow> (real \<times> input) list \<Rightarrow> match_state \<times> generator" where
  "advance_many sg [] = sg"
| "advance_many sg ((elapsed, inp) # frames) = advance_many (advance sg elapsed inp) frames"

section \<open>Properties\<close>

subsection \<open>Auxiliary facts\<close>

lemma config_simps:
  "width PONG_CONFIG = 500" "height PONG_CONFIG = 300"
  "paddleWidth PONG_CONFIG = 12" "paddleHeight PONG_CONFIG = 70"
  "paddleSpeed PONG_CONFIG = 6" "paddleMargin PONG_CONFIG = 15"
  "ballSize PONG_CONFIG = 10" "ballSpeedInitial PONG_CONFIG = 4"
  "ballSpeedIncrement PONG_CONFIG = 15 / 100" "ballSpeedMax PONG_CONFIG = 8"
  "pointsToWin PONG_CONFIG = 5" "countdownSeconds PONG_CONFIG = 3"
  by (simp_all add: PONG_CONFIG_def)

text \<open>What a reported hit returns, and what it says about where the ball was.\<close>

lemma checkPaddleCollision_hit:
  assumes "checkPaddleCollision b paddleX paddleY isLeftPaddle = Some nb"
  shows "nb = b\<lparr> ball_x := (if isLeftPaddle then paddleX + paddleWidth PONG_CONFIG
                             else paddleX - ballSize PONG_CONFIG),
                 ball_vx := (if isLeftPaddle then 1 else - 1)
                   * min (ballSpeedMax PONG_CONFIG) (ball_speed b + ballSpeedIncrement PONG_CONFIG)
                   * cos ((ball_y b + ballSize PONG_CONFIG / 2
                            - (paddleY + paddleHeight PONG_CONFIG / 2))
                          / (paddleHeight PONG_CONFIG / 2) * (8 / 10)),
                 ball_vy := min (ballSpeedMax PONG_CONFIG) (ball_speed b + ballSpeedIncrement PONG_CONFIG)
                   * sin ((ball_y b + ballSize PONG_CONFIG / 2
                            - (paddleY + paddleHeight PONG_CONFIG / 2))
                          / (paddleHeight PONG_CONFIG / 2) * (8 / 10)),
                 ball_speed := min (ballSpeedMax PONG_CONFIG)
                                   (ball_speed b + ballSpeedIncrement PONG_CONFIG) \<rparr>"
    and "paddleY \<le> ball_y b + ballSize PONG_CONFIG / 2"
    and "ball_y b + ballSize PONG_CONFIG / 2 \<le> paddleY + paddleHeight PONG_CONFIG"
  using assms
  by (auto simp: checkPaddleCollision_def Let_def split: if_splits)

text \<open>A hit of the left paddle, the one the regression tests use.\<close>

lemma hit_example:
  "checkPaddleCollision \<lparr> ball_x = 20, ball_y = 130, ball_vx = - 5, ball_vy = 0, ball_speed = 4 \<rparr>
      15 100 True
   = Some \<lparr> ball_x = 27, ball_y = 130, ball_vx = 415 / 100, ball_vy = 0, ball_speed = 415 / 100 \<rparr>"
  by (simp add: checkPaddleCollision_def Let_def config_simps)


lemma random_Some: "random (Some s) g = (s, g)"
  by (simp add: random_def)

lemma random_None: "random None g = (shd g, stl g)"
  by (simp add: random_def Math_random_def)

lemma generateServeVelocity_eq:
  "generateServeVelocity seed g =
     (\<lparr> vx = (if fst (random seed (snd (random seed g))) > 5 / 10 then 1 else - 1)
               * ballSpeedInitial PONG_CONFIG * cos (fst (random seed g) * (8 / 10) - 4 / 10),
        vy = ballSpeedInitial PONG_CONFIG * sin (fst (random seed g) * (8 / 10) - 4 / 10) \<rparr>,
      snd (random seed (snd (random seed g))))"
  by (simp add: generateServeVelocity_def Let_def split_beta)

text \<open>The sine is monotone on the range of serve angles.\<close>

lemma sin_serve_angle_bound:
  fixes r :: real
  assumes "0 \<le> r" "r \<le> 1"
  shows "\<bar>sin (r * (8 / 10) - 4 / 10)\<bar> \<le> sin (4 / 10)"
proof -
  let ?a = "r * (8 / 10) - 4 / 10"
  have a: "- (4 / 10) \<le> ?a" "?a \<le> 4 / 10" using assms by simp_all
  have p: "(4 / 10 :: real) \<le> pi / 2" using pi_ge_two by simp
  have "sin ?a \<le> sin (4 / 10)"
    using a p by (intro sin_monotone_2pi_le) linarith+
  moreover have "sin (- (4 / 10)) \<le> sin ?a"
    using a p by (intro sin_monotone_2pi_le) linarith+
  ultimately show ?thesis by simp
qed

text \<open>
  The loop invariant of \<^verbatim>\<open>predictBallY\<close>: the counter only grows and stays within the
  cap, the value at exit is the starting value folded once per pass, and an exit below
  the cap is an exit because the value is in range.
\<close>

lemma predictBallY_loop_spec:
  "iterations \<le> maxIterations \<Longrightarrow>
   iterations \<le> snd (predictBallY_loop predictedY iterations)
   \<and> snd (predictBallY_loop predictedY iterations) \<le> maxIterations
   \<and> fst (predictBallY_loop predictedY iterations)
       = (fold_once ^^ (snd (predictBallY_loop predictedY iterations) - iterations)) predictedY
   \<and> (snd (predictBallY_loop predictedY iterations) < maxIterations \<longrightarrow>
        0 \<le> fst (predictBallY_loop predictedY iterations)
        \<and> fst (predictBallY_loop predictedY iterations)
            \<le> height PONG_CONFIG - ballSize PONG_CONFIG)"
proof (induction predictedY iterations rule: predictBallY_loop.induct)
  case (1 predictedY iterations)
  let ?c = "(predictedY < 0 \<or> predictedY > height PONG_CONFIG - ballSize PONG_CONFIG)
            \<and> iterations < maxIterations"
  show ?case
  proof (cases ?c)
    case True
    define r where "r = predictBallY_loop (fold_once predictedY) (iterations + 1)"
    have eq: "predictBallY_loop predictedY iterations = r"
      unfolding r_def by (subst predictBallY_loop.simps) (rule if_P [OF True])
    from True have le: "iterations + 1 \<le> maxIterations" by simp
    note ih = "1.IH" [OF True le, folded r_def]
    from ih have n: "iterations + 1 \<le> snd r" by blast
    from ih have f: "fst r = (fold_once ^^ (snd r - (iterations + 1))) (fold_once predictedY)"
      by blast
    from n have "snd r - iterations = Suc (snd r - (iterations + 1))" by simp
    then have "(fold_once ^^ (snd r - iterations)) predictedY
             = (fold_once ^^ (snd r - (iterations + 1))) (fold_once predictedY)"
      by (simp only: funpow_Suc_right o_apply)
    with f have f': "fst r = (fold_once ^^ (snd r - iterations)) predictedY" by simp
    from n have n': "iterations \<le> snd r" by simp
    from ih n' f' show ?thesis unfolding eq by blast
  next
    case False
    have eq: "predictBallY_loop predictedY iterations = (predictedY, iterations)"
      by (subst predictBallY_loop.simps) (rule if_not_P [OF False])
    from False "1.prems" show ?thesis unfolding eq by auto
  qed
qed

lemma loop_one_bounce: "predictBallY_loop (- 50) 0 = (50, 1)"
  by (simp add: predictBallY_loop.simps fold_once_def maxIterations_def config_simps)

lemma loop_cap_reached: "predictBallY_loop 10000 0 = (- 4200, 10)"
  by (simp add: predictBallY_loop.simps fold_once_def maxIterations_def config_simps)

text \<open>Once the phase is Finished, any sequence of frames returns the state it was given.\<close>

lemma advance_many_finished:
  "st_phase (fst sg) = Finished \<Longrightarrow> advance_many sg frames = sg"
proof (induction frames arbitrary: sg)
  case Nil
  then show ?case by simp
next
  case (Cons f frames)
  obtain elapsed inp where f: "f = (elapsed, inp)" by (cases f)
  obtain s g where sg: "sg = (s, g)" by (cases sg)
  from Cons.prems sg have "advance sg elapsed inp = sg"
    by (simp add: advance_def)
  with Cons show ?case by (simp add: f)
qed

subsection \<open>C1: a Finished match is frozen\<close>

text \<open>
  Claim C1. For every state whose phase is Finished, applying the per-frame advance
  operation any number of times, with any elapsed times and any inputs, leaves the
  ball, the player paddle, the AI paddle and the score unchanged; the operation returns
  a state (it is total) and the phase stays Finished.
\<close>

theorem finished_is_frozen:
  assumes "st_phase s = Finished"
  shows "st_ball (fst (advance_many (s, g) frames)) = st_ball s
       \<and> st_player_y (fst (advance_many (s, g) frames)) = st_player_y s
       \<and> st_ai_y (fst (advance_many (s, g) frames)) = st_ai_y s
       \<and> st_score (fst (advance_many (s, g) frames)) = st_score s
       \<and> st_phase (fst (advance_many (s, g) frames)) = Finished"
  using assms by (simp add: advance_many_finished)

theorem finished_is_frozen_witness:
  "st_phase (createInitialState\<lparr> st_phase := Finished, st_score := \<lparr> player = 5, ai = 3 \<rparr> \<rparr>) = Finished
   \<and> st_score (fst (advance_many
        (createInitialState\<lparr> st_phase := Finished, st_score := \<lparr> player = 5, ai = 3 \<rparr> \<rparr>, sconst (1 / 2))
        [(1, \<lparr> up = True, down = False \<rparr>), (2, \<lparr> up = False, down = True \<rparr>)]))
     = \<lparr> player = 5, ai = 3 \<rparr>"
  using finished_is_frozen [of "createInitialState\<lparr> st_phase := Finished, st_score := \<lparr> player = 5, ai = 3 \<rparr> \<rparr>"
     "sconst (1 / 2)" "[(1, \<lparr> up = True, down = False \<rparr>), (2, \<lparr> up = False, down = True \<rparr>)]"]
  by simp

subsection \<open>C2: the speed after a paddle hit\<close>

text \<open>
  Claim C2. Whenever \<^verbatim>\<open>checkPaddleCollision\<close> reports a hit, the speed of the returned
  ball is the minimum of the maximal speed and the incoming speed plus the increment;
  it is at most the maximal speed, and it is at least the incoming speed when the
  incoming speed is at most the maximal speed.
\<close>

theorem paddle_hit_speed:
  assumes "checkPaddleCollision b paddleX paddleY isLeftPaddle = Some nb"
  shows "ball_speed nb = min (ballSpeedMax PONG_CONFIG)
                             (ball_speed b + ballSpeedIncrement PONG_CONFIG)
       \<and> ball_speed nb \<le> ballSpeedMax PONG_CONFIG
       \<and> (ball_speed b \<le> ballSpeedMax PONG_CONFIG \<longrightarrow> ball_speed b \<le> ball_speed nb)"
proof -
  have "ball_speed nb = min (ballSpeedMax PONG_CONFIG)
                            (ball_speed b + ballSpeedIncrement PONG_CONFIG)"
    using checkPaddleCollision_hit(1) [OF assms] by simp
  then show ?thesis by (simp add: config_simps)
qed

theorem paddle_hit_speed_witness:
  "checkPaddleCollision \<lparr> ball_x = 20, ball_y = 130, ball_vx = - 5, ball_vy = 0, ball_speed = 4 \<rparr>
      15 100 True
   = Some \<lparr> ball_x = 27, ball_y = 130, ball_vx = 415 / 100, ball_vy = 0, ball_speed = 415 / 100 \<rparr>
   \<and> ball_speed \<lparr> ball_x = 27, ball_y = 130, ball_vx = 415 / 100, ball_vy = 0, ball_speed = 415 / 100 \<rparr>
     = min (ballSpeedMax PONG_CONFIG) (4 + ballSpeedIncrement PONG_CONFIG)
   \<and> (4::real) \<le> 415 / 100 \<and> (415 / 100 :: real) \<le> ballSpeedMax PONG_CONFIG"
  using paddle_hit_speed [OF hit_example] hit_example
  by (simp add: config_simps)

subsection \<open>C3: the velocity after a paddle hit\<close>



subsection \<open>C4: wall collisions\<close>

text \<open>
  Claim C4. For every ball, \<^verbatim>\<open>checkWallCollision\<close> returns a \<open>newY\<close> between \<open>0\<close> and
  the court height less the ball size. At or above the top wall it reports a collision
  with \<open>newY = 0\<close> and \<open>newVy = \<bar>vy\<bar>\<close>; at or below the bottom wall it reports a collision
  with \<open>newY\<close> at the bound and \<open>newVy = - \<bar>vy\<bar>\<close>; in between it reports none and leaves
  \<open>y\<close> and \<open>vy\<close> as they are. So after a collision the vertical velocity does not point
  out of the court. A ball with \<open>y = -5\<close> and \<open>vy = -3\<close> gives a collision with
  \<open>newY = 0\<close> and \<open>newVy = 3\<close>.
\<close>

theorem wall_collision_resolves:
  "0 \<le> newY (checkWallCollision b)
   \<and> newY (checkWallCollision b) \<le> height PONG_CONFIG - ballSize PONG_CONFIG
   \<and> (ball_y b \<le> 0 \<longrightarrow>
        checkWallCollision b = \<lparr> collided = True, newY = 0, newVy = \<bar>ball_vy b\<bar> \<rparr>)
   \<and> (ball_y b \<ge> height PONG_CONFIG - ballSize PONG_CONFIG \<longrightarrow>
        checkWallCollision b = \<lparr> collided = True,
          newY = height PONG_CONFIG - ballSize PONG_CONFIG, newVy = - \<bar>ball_vy b\<bar> \<rparr>)
   \<and> (0 < ball_y b \<and> ball_y b < height PONG_CONFIG - ballSize PONG_CONFIG \<longrightarrow>
        checkWallCollision b = \<lparr> collided = False, newY = ball_y b, newVy = ball_vy b \<rparr>)
   \<and> (newY (checkWallCollision b) = 0 \<and> collided (checkWallCollision b)
        \<longrightarrow> 0 \<le> newVy (checkWallCollision b))
   \<and> (newY (checkWallCollision b) = height PONG_CONFIG - ballSize PONG_CONFIG
        \<and> collided (checkWallCollision b) \<longrightarrow> newVy (checkWallCollision b) \<le> 0)
   \<and> checkWallCollision (b\<lparr> ball_y := - 5, ball_vy := - 3 \<rparr>)
       = \<lparr> collided = True, newY = 0, newVy = 3 \<rparr>"
  by (simp add: checkWallCollision_def config_simps)

theorem wall_collision_resolves_witness:
  "ball_y \<lparr> ball_x = 250, ball_y = - 5, ball_vx = 4, ball_vy = - 3, ball_speed = 5 \<rparr> \<le> 0
   \<and> checkWallCollision \<lparr> ball_x = 250, ball_y = - 5, ball_vx = 4, ball_vy = - 3, ball_speed = 5 \<rparr>
       = \<lparr> collided = True, newY = 0, newVy = 3 \<rparr>
   \<and> ball_y \<lparr> ball_x = 250, ball_y = 300, ball_vx = 4, ball_vy = 3, ball_speed = 5 \<rparr>
       \<ge> height PONG_CONFIG - ballSize PONG_CONFIG
   \<and> checkWallCollision \<lparr> ball_x = 250, ball_y = 300, ball_vx = 4, ball_vy = 3, ball_speed = 5 \<rparr>
       = \<lparr> collided = True, newY = 290, newVy = - 3 \<rparr>
   \<and> 0 < ball_y \<lparr> ball_x = 250, ball_y = 100, ball_vx = 4, ball_vy = 3, ball_speed = 5 \<rparr>
   \<and> ball_y \<lparr> ball_x = 250, ball_y = 100, ball_vx = 4, ball_vy = 3, ball_speed = 5 \<rparr>
       < height PONG_CONFIG - ballSize PONG_CONFIG
   \<and> checkWallCollision \<lparr> ball_x = 250, ball_y = 100, ball_vx = 4, ball_vy = 3, ball_speed = 5 \<rparr>
       = \<lparr> collided = False, newY = 100, newVy = 3 \<rparr>"
  using wall_collision_resolves [of "\<lparr> ball_x = 250, ball_y = - 5, ball_vx = 4, ball_vy = - 3, ball_speed = 5 \<rparr>"]
    wall_collision_resolves [of "\<lparr> ball_x = 250, ball_y = 300, ball_vx = 4, ball_vy = 3, ball_speed = 5 \<rparr>"]
    wall_collision_resolves [of "\<lparr> ball_x = 250, ball_y = 100, ball_vx = 4, ball_vy = 3, ball_speed = 5 \<rparr>"]
  by (simp add: config_simps)

subsection \<open>C5: no hit for a ball moving away\<close>

text \<open>
  Claim C5. For every ball and every paddle position, if the horizontal velocity of the
  ball does not point toward the paddle (\<open>vx \<ge> 0\<close> for the left paddle, \<open>vx \<le> 0\<close> for
  the right one), \<^verbatim>\<open>checkPaddleCollision\<close> reports no hit, whatever the positions.
\<close>

theorem paddle_no_hit_moving_away:
  assumes "if isLeftPaddle then ball_vx b \<ge> 0 else ball_vx b \<le> 0"
  shows "checkPaddleCollision b paddleX paddleY isLeftPaddle = None"
  using assms by (simp add: checkPaddleCollision_def Let_def split: if_splits)

theorem paddle_no_hit_moving_away_witness:
  "ball_vx \<lparr> ball_x = 20, ball_y = 130, ball_vx = 5, ball_vy = 0, ball_speed = 4 \<rparr> \<ge> 0
   \<and> checkPaddleCollision \<lparr> ball_x = 20, ball_y = 130, ball_vx = 5, ball_vy = 0, ball_speed = 4 \<rparr>
        15 100 True = None
   \<and> ball_vx \<lparr> ball_x = 470, ball_y = 130, ball_vx = - 5, ball_vy = 0, ball_speed = 4 \<rparr> \<le> 0
   \<and> checkPaddleCollision \<lparr> ball_x = 470, ball_y = 130, ball_vx = - 5, ball_vy = 0, ball_speed = 4 \<rparr>
        473 100 False = None"
  using paddle_no_hit_moving_away
    [of True "\<lparr> ball_x = 20, ball_y = 130, ball_vx = 5, ball_vy = 0, ball_speed = 4 \<rparr>" 15 100]
    paddle_no_hit_moving_away
    [of False "\<lparr> ball_x = 470, ball_y = 130, ball_vx = - 5, ball_vy = 0, ball_speed = 4 \<rparr>" 473 100]
  by simp

subsection \<open>C6: the serve velocity\<close>

text \<open>
  Claim C6. For every randomness source whose draws lie in \<open>[0, 1)\<close> (a seed in that
  range, or a global generator all of whose draws are), the velocity returned by
  \<^verbatim>\<open>generateServeVelocity\<close> has magnitude \<open>sqrt (vx\<^sup>2 + vy\<^sup>2)\<close> equal to the initial
  ball speed, exactly over the reals, and \<open>\<bar>vy\<bar>\<close> is at most the initial speed times
  \<open>sin 0.4\<close>.
\<close>

theorem serve_velocity_magnitude:
  assumes "case seed of Some s \<Rightarrow> 0 \<le> s \<and> s < 1
           | None \<Rightarrow> \<forall>r \<in> sset g. 0 \<le> r \<and> r < 1"
  shows "sqrt ((vx (fst (generateServeVelocity seed g)))\<^sup>2
               + (vy (fst (generateServeVelocity seed g)))\<^sup>2) = ballSpeedInitial PONG_CONFIG
       \<and> \<bar>vy (fst (generateServeVelocity seed g))\<bar> \<le> ballSpeedInitial PONG_CONFIG * sin (4 / 10)"
proof -
  define r1 where "r1 = fst (random seed g)"
  define a where "a = r1 * (8 / 10) - 4 / 10"
  define d :: real where "d = (if fst (random seed (snd (random seed g))) > 5 / 10 then 1 else - 1)"
  have v: "vx (fst (generateServeVelocity seed g)) = d * 4 * cos a"
          "vy (fst (generateServeVelocity seed g)) = 4 * sin a"
    by (simp_all add: generateServeVelocity_eq d_def a_def r1_def config_simps)
  have r1: "0 \<le> r1" "r1 \<le> 1"
  proof -
    have "0 \<le> r1 \<and> r1 \<le> 1"
    proof (cases seed)
      case None
      have "shd g \<in> sset g" by (rule shd_sset)
      with assms None show ?thesis by (auto simp: r1_def random_None)
    next
      case (Some s)
      with assms show ?thesis by (simp add: r1_def random_Some)
    qed
    then show "0 \<le> r1" "r1 \<le> 1" by simp_all
  qed
  have d2: "d\<^sup>2 = 1" by (simp add: d_def)
  have "(d * 4 * cos a)\<^sup>2 = 16 * (cos a)\<^sup>2" "(4 * sin a)\<^sup>2 = 16 * (sin a)\<^sup>2"
    by (simp_all add: power_mult_distrib d2)
  then have "(d * 4 * cos a)\<^sup>2 + (4 * sin a)\<^sup>2 = 16 * ((cos a)\<^sup>2 + (sin a)\<^sup>2)"
    by (simp only: distrib_left)
  then have "(d * 4 * cos a)\<^sup>2 + (4 * sin a)\<^sup>2 = 4\<^sup>2" by simp
  then have mag: "sqrt ((d * 4 * cos a)\<^sup>2 + (4 * sin a)\<^sup>2) = 4"
    by simp
  have "\<bar>sin a\<bar> \<le> sin (4 / 10)"
    unfolding a_def using r1 by (rule sin_serve_angle_bound)
  then have "\<bar>4 * sin a\<bar> \<le> 4 * sin (4 / 10)" by (simp add: abs_mult)
  with mag show ?thesis by (simp add: v config_simps)
qed

theorem serve_velocity_magnitude_witness:
  "sset (sconst (1 / 4 :: real)) = {1 / 4} \<and> (0::real) \<le> 1 / 4 \<and> (1 / 4 :: real) < 1
   \<and> sqrt ((vx (fst (generateServeVelocity None (sconst (1 / 4)))))\<^sup>2
           + (vy (fst (generateServeVelocity None (sconst (1 / 4)))))\<^sup>2) = 4
   \<and> \<bar>vy (fst (generateServeVelocity None (sconst (1 / 4))))\<bar> \<le> 4 * sin (4 / 10)
   \<and> (0::real) \<le> 3 / 4 \<and> (3 / 4 :: real) < 1
   \<and> sqrt ((vx (fst (generateServeVelocity (Some (3 / 4)) (sconst 0))))\<^sup>2
           + (vy (fst (generateServeVelocity (Some (3 / 4)) (sconst 0))))\<^sup>2) = 4
   \<and> \<bar>vy (fst (generateServeVelocity (Some (3 / 4)) (sconst 0)))\<bar> \<le> 4 * sin (4 / 10)"
  using serve_velocity_magnitude [where seed = None and g = "sconst (1 / 4)"]
    serve_velocity_magnitude [where seed = "Some (3 / 4)" and g = "sconst 0"]
  by (simp add: config_simps)

subsection \<open>C7: where the randomness comes from\<close>

text \<open>
  Claim C7, amended. \<^verbatim>\<open>generateServeVelocity\<close> takes an optional seed as an explicit
  parameter. With a seed, both of its draws are the seed: the velocity depends on the
  seed alone and the global generator is left as it was. Without a seed it takes two
  draws from the global generator. \<^verbatim>\<open>calculateAITarget\<close> has no randomness parameter:
  when the ball moves toward the AI (\<open>vx > 0\<close>) it takes one draw \<open>r\<close> from the global
  generator and returns the predicted position less half the paddle height plus
  \<open>(r - 0.5) \<times> 30\<close>; when \<open>vx \<le> 0\<close> it returns the idle position and does not touch the
  generator. So equal inputs give equal outputs for a seeded serve, and otherwise only
  for equal states of the global generator.
\<close>

theorem randomness_sources:
  "fst (generateServeVelocity (Some s) g) = fst (generateServeVelocity (Some s) g')
   \<and> snd (generateServeVelocity (Some s) g) = g
   \<and> generateServeVelocity None g =
       (\<lparr> vx = (if shd (stl g) > 5 / 10 then 1 else - 1) * ballSpeedInitial PONG_CONFIG
                 * cos (shd g * (8 / 10) - 4 / 10),
          vy = ballSpeedInitial PONG_CONFIG * sin (shd g * (8 / 10) - 4 / 10) \<rparr>, stl (stl g))
   \<and> (ball_vx b \<le> 0 \<longrightarrow>
        calculateAITarget b currentAiY g
          = (height PONG_CONFIG / 2 - paddleHeight PONG_CONFIG / 2, g))
   \<and> (ball_vx b > 0 \<longrightarrow>
        calculateAITarget b currentAiY g
          = (predictBallY b (width PONG_CONFIG - paddleMargin PONG_CONFIG - paddleWidth PONG_CONFIG)
               - paddleHeight PONG_CONFIG / 2 + (shd g - 5 / 10) * 30, stl g))"
  by (simp add: generateServeVelocity_eq random_Some random_None calculateAITarget_def
      Let_def Math_random_def)

theorem randomness_sources_witness:
  "ball_vx \<lparr> ball_x = 100, ball_y = 100, ball_vx = - 10, ball_vy = 0, ball_speed = 10 \<rparr> \<le> 0
   \<and> calculateAITarget \<lparr> ball_x = 100, ball_y = 100, ball_vx = - 10, ball_vy = 0, ball_speed = 10 \<rparr>
        115 (sconst (1 / 4)) = (115, sconst (1 / 4))
   \<and> ball_vx \<lparr> ball_x = 100, ball_y = 100, ball_vx = 10, ball_vy = 0, ball_speed = 10 \<rparr> > 0
   \<and> calculateAITarget \<lparr> ball_x = 100, ball_y = 100, ball_vx = 10, ball_vy = 0, ball_speed = 10 \<rparr>
        115 (sconst (1 / 4))
      = (predictBallY \<lparr> ball_x = 100, ball_y = 100, ball_vx = 10, ball_vy = 0, ball_speed = 10 \<rparr> 473
           - 35 + (1 / 4 - 5 / 10) * 30, sconst (1 / 4))"
  using randomness_sources [of 0 "sconst (1 / 4)" "sconst (1 / 4)"
      "\<lparr> ball_x = 100, ball_y = 100, ball_vx = - 10, ball_vy = 0, ball_speed = 10 \<rparr>" 115]
    randomness_sources [of 0 "sconst (1 / 4)" "sconst (1 / 4)"
      "\<lparr> ball_x = 100, ball_y = 100, ball_vx = 10, ball_vy = 0, ball_speed = 10 \<rparr>" 115]
  by (simp add: config_simps)

text \<open>
  Claim C7 as stated fails for the AI jitter: on the same ball and the same paddle
  position, two runs of \<^verbatim>\<open>calculateAITarget\<close> return different targets when the global
  generator is in different states, and the function has no parameter through which a
  source could be supplied.
\<close>

theorem ai_jitter_global_counterexample:
  "fst (calculateAITarget \<lparr> ball_x = 100, ball_y = 100, ball_vx = 10, ball_vy = 0, ball_speed = 10 \<rparr>
          115 (sconst 0))
   \<noteq> fst (calculateAITarget \<lparr> ball_x = 100, ball_y = 100, ball_vx = 10, ball_vy = 0, ball_speed = 10 \<rparr>
          115 (sconst (1 / 2)))"
  by (simp add: calculateAITarget_def Let_def Math_random_def)

subsection \<open>C9: the folding loop of the predictor\<close>

text \<open>
  Claim C9. For every ball with \<open>vx \<noteq> 0\<close> and a target it is not moving away from
  (the time to reach it is not negative), the folding loop of \<^verbatim>\<open>predictBallY\<close> makes at
  most 10 passes; the function returns the extrapolated value folded once per pass and
  nothing else, also when the cap is reached; and whenever the loop makes fewer than
  10 passes the returned value lies between \<open>0\<close> and the court height less the ball
  size.
\<close>

theorem predictBallY_fold_bounded:
  assumes "ball_vx b \<noteq> 0" and "0 \<le> (targetX - ball_x b) / ball_vx b"
  shows "let rawY = ball_y b + ball_vy b * ((targetX - ball_x b) / ball_vx b);
             n = snd (predictBallY_loop rawY 0)
         in n \<le> 10
          \<and> predictBallY b targetX = (fold_once ^^ n) rawY
          \<and> (n < 10 \<longrightarrow> 0 \<le> predictBallY b targetX
                 \<and> predictBallY b targetX \<le> height PONG_CONFIG - ballSize PONG_CONFIG)"
proof -
  define rawY where "rawY = ball_y b + ball_vy b * ((targetX - ball_x b) / ball_vx b)"
  define n where "n = snd (predictBallY_loop rawY 0)"
  have p: "predictBallY b targetX = fst (predictBallY_loop rawY 0)"
    using assms by (simp add: predictBallY_def Let_def rawY_def)
  have "0 \<le> maxIterations" by simp
  note sp = predictBallY_loop_spec [OF this, of rawY, folded n_def p]
  from sp have 1: "n \<le> 10" by (simp add: maxIterations_def)
  from sp have 2: "predictBallY b targetX = (fold_once ^^ n) rawY" by simp
  from sp have 3: "n < 10 \<longrightarrow> 0 \<le> predictBallY b targetX
                 \<and> predictBallY b targetX \<le> height PONG_CONFIG - ballSize PONG_CONFIG"
    unfolding maxIterations_def by blast
  from 1 2 3 show ?thesis
    unfolding Let_def rawY_def [symmetric] n_def [symmetric] by blast
qed

theorem predictBallY_fold_bounded_witness:
  "ball_vx \<lparr> ball_x = 100, ball_y = 50, ball_vx = 10, ball_vy = - 10, ball_speed = 4 \<rparr> \<noteq> 0
   \<and> 0 \<le> (200 - ball_x \<lparr> ball_x = 100, ball_y = 50, ball_vx = 10, ball_vy = - 10, ball_speed = 4 \<rparr>)
          / ball_vx \<lparr> ball_x = 100, ball_y = 50, ball_vx = 10, ball_vy = - 10, ball_speed = 4 \<rparr>
   \<and> snd (predictBallY_loop (- 50) 0) = 1
   \<and> predictBallY \<lparr> ball_x = 100, ball_y = 50, ball_vx = 10, ball_vy = - 10, ball_speed = 4 \<rparr> 200 = 50
   \<and> snd (predictBallY_loop 10000 0) = 10
   \<and> predictBallY \<lparr> ball_x = 100, ball_y = 0, ball_vx = 1, ball_vy = 100, ball_speed = 4 \<rparr> 200 = - 4200"
  using predictBallY_fold_bounded
      [of "\<lparr> ball_x = 100, ball_y = 50, ball_vx = 10, ball_vy = - 10, ball_speed = 4 \<rparr>" 200]
    predictBallY_fold_bounded
      [of "\<lparr> ball_x = 100, ball_y = 0, ball_vx = 1, ball_vy = 100, ball_speed = 4 \<rparr>" 200]
  by (simp add: loop_one_bounce loop_cap_reached predictBallY_def Let_def)

end
